theory Spec2Isabelle
  imports Main "HOL-Library.Multiset"
begin

section \<open>Values of the JavaScript runtime\<close>

text \<open>
  The order handlers of \<^verbatim>\<open>server.js\<close> read \<^verbatim>\<open>req.body\<close>, the JSON document that
  \<^verbatim>\<open>express.json()\<close> parsed, and the properties they take out of it. A value is a JSON
  value or \<^verbatim>\<open>undefined\<close> (what reading a missing property gives). An object is the list of
  its own properties, each key once. Numbers are kept as integers: the handlers only ask whether a number
  is zero (truthiness) and never compute with a number of the request.
\<close>

datatype jsval =
    JUndefined
  | JNull
  | JBool bool
  | JNum int
  | JStr string
  | JArr "jsval list"
  | JObj "(string \<times> jsval) list"

text \<open>JavaScript truthiness: \<^verbatim>\<open>!v\<close> is \<open>\<not> truthy v\<close>.\<close>

fun truthy :: "jsval \<Rightarrow> bool" where
  "truthy JUndefined = False"
| "truthy JNull = False"
| "truthy (JBool b) = b"
| "truthy (JNum n) = (n \<noteq> 0)"
| "truthy (JStr s) = (s \<noteq> [])"
| "truthy (JArr xs) = True"
| "truthy (JObj ps) = True"

text \<open>\<^verbatim>\<open>Array.isArray(v)\<close>.\<close>

fun isArray :: "jsval \<Rightarrow> bool" where
  "isArray (JArr xs) = True"
| "isArray v = False"

text \<open>The elements of an array value (no elements for any other value).\<close>

fun elements :: "jsval \<Rightarrow> jsval list" where
  "elements (JArr xs) = xs"
| "elements v = []"

text \<open>
  Reading a property \<^verbatim>\<open>v.k\<close>. Reading from \<^verbatim>\<open>undefined\<close> or \<^verbatim>\<open>null\<close> throws a
  TypeError (\<open>None\<close>). An object gives its own property or \<^verbatim>\<open>undefined\<close>; the keys the
  program reads (\<^verbatim>\<open>name\<close>, \<^verbatim>\<open>phone\<close>, \<^verbatim>\<open>address\<close>, \<^verbatim>\<open>cart\<close>, \<^verbatim>\<open>qty\<close>, \<^verbatim>\<open>price\<close>) are
  not defined on the prototypes of arrays, strings, numbers or booleans, so every other
  value gives \<^verbatim>\<open>undefined\<close>.
\<close>

fun get_prop :: "jsval \<Rightarrow> string \<Rightarrow> jsval option" where
  "get_prop JUndefined k = None"
| "get_prop JNull k = None"
| "get_prop (JObj ps) k = (case map_of ps k of None \<Rightarrow> Some JUndefined | Some v \<Rightarrow> Some v)"
| "get_prop v k = Some JUndefined"

section \<open>Orders, the two stores and the environment\<close>

text \<open>
  A stored order: the object literal pushed onto \<^verbatim>\<open>memoryOrders\<close>, or a document of
  \<^verbatim>\<open>orderSchema\<close>. Field \<open>oid\<close> is the property \<^verbatim>\<open>_id\<close>; \<open>createdAt\<close> is a date as
  milliseconds since the epoch.
\<close>

record Order =
  oid :: jsval
  name :: jsval
  phone :: jsval
  address :: jsval
  cart :: jsval
  createdAt :: int

text \<open>
  The state that outlives a request: the module-level array \<^verbatim>\<open>memoryOrders\<close> and the
  documents of the \<^verbatim>\<open>Order\<close> collection in the document store.
\<close>

record state =
  memoryOrders :: "Order list"
  collection :: "Order list"

text \<open>
  What the outside world decides for one request: the value of
  \<^verbatim>\<open>mongoose.connection.readyState\<close> when the handler reads it, the clock
  (\<^verbatim>\<open>new Date()\<close>, \<^verbatim>\<open>Date.now\<close>), whether the call into the document store rejects, the
  identifier the document store assigns, and whether \<^verbatim>\<open>transporter.sendMail\<close> rejects.
\<close>

record env =
  readyState :: nat
  now :: int
  store_rejects :: bool
  objectId :: string
  sendMail_rejects :: bool

text \<open>What a handler does besides answering: mail handed to the transport, and
  \<^verbatim>\<open>console.error\<close> lines (by their fixed first argument).\<close>

record mail =
  mail_id :: jsval
  mail_name :: jsval
  mail_phone :: jsval
  mail_address :: jsval
  mail_items :: "(jsval \<times> jsval \<times> jsval) list"
  mail_placed_at :: int

datatype event =
    Mail_sent mail
  | Console_error string

text \<open>
  A response is its status and its body: plain text (\<^verbatim>\<open>res.send\<close>), or the JSON of
  \<^verbatim>\<open>res.json\<close>, which is one of \<^verbatim>\<open>{ message: m }\<close>,
  \<^verbatim>\<open>{ message: "Order received", orderId: i }\<close>, the array of products, and an array of
  orders. A response without \<^verbatim>\<open>res.status\<close> has status 200.
\<close>

datatype resp_body =
    Text string
  | Json_message string
  | Json_order_received jsval
  | Json_products "(int \<times> string \<times> int \<times> string \<times> string) list"
  | Json_orders "Order list"

record response =
  status :: nat
  body :: resp_body

section \<open>Sorting an array with a comparator\<close>

text \<open>
  \<^verbatim>\<open>Array.prototype.sort(cmp)\<close> is stable, and the comparator of the program
  (a difference of two dates) is consistent, so the result is the stable arrangement in
  which \<open>a\<close> stays in front of \<open>b\<close> unless \<open>cmp a b > 0\<close>. It is computed here by stable
  insertion from the right.
\<close>

fun place :: "('a \<Rightarrow> 'a \<Rightarrow> int) \<Rightarrow> 'a \<Rightarrow> 'a list \<Rightarrow> 'a list" where
  "place cmp a [] = [a]"
| "place cmp a (b # bs) = (if cmp a b \<le> 0 then a # b # bs else b # place cmp a bs)"

fun array_sort :: "('a \<Rightarrow> 'a \<Rightarrow> int) \<Rightarrow> 'a list \<Rightarrow> 'a list" where
  "array_sort cmp [] = []"
| "array_sort cmp (a # as) = place cmp a (array_sort cmp as)"

text \<open>The comparator of the listing: \<^verbatim>\<open>(a, b) => b.createdAt - a.createdAt\<close>.\<close>

definition newest_first :: "Order \<Rightarrow> Order \<Rightarrow> int" where
  "newest_first a b = createdAt b - createdAt a"

section \<open>The document store\<close>

text \<open>
  The calls \<^verbatim>\<open>Order.create\<close> and \<^verbatim>\<open>Order.find().sort({ createdAt: -1 })\<close> run in
  Mongoose and the document store, which are not among the sources. They are given by
  what the specification says of the durable store (4.2, 7), over the list of the
  documents of the collection. The document handed to \<^verbatim>\<open>Order.create\<close> is a
  \<open>new_order\<close>; a \<^verbatim>\<open>createdAt\<close> it does not carry is \<open>None\<close>.
\<close>

record new_order =
  new_name :: jsval
  new_phone :: jsval
  new_address :: jsval
  new_cart :: jsval
  new_createdAt :: "int option"

text \<open>
  Modelled from the spec: \<^verbatim>\<open>Order.create\<close>, which is Mongoose. Create returns the order
  with an identifier assigned by the store, or fails with a store error (\<open>None\<close>); a
  failed write is never a partial write, so it leaves the collection as it was. The
  default of \<^verbatim>\<open>orderSchema\<close> for \<^verbatim>\<open>createdAt\<close> (\<^verbatim>\<open>Date.now\<close>) applies when the document
  carries none. The casts of the schema (text, numbers, one subdocument per cart line) are
  not modelled: the fields are stored as they were passed.
\<close>

definition Order_create :: "env \<Rightarrow> new_order \<Rightarrow> Order list \<Rightarrow> (Order \<times> Order list) option" where
  "Order_create e d docs =
     (if store_rejects e then None
      else
        let saved = \<lparr> oid = JStr (objectId e), name = new_name d, phone = new_phone d,
                      address = new_address d, cart = new_cart d,
                      createdAt = (case new_createdAt d of None \<Rightarrow> now e | Some t \<Rightarrow> t) \<rparr>
        in Some (saved, docs @ [saved]))"

text \<open>
  Modelled from the spec: \<^verbatim>\<open>Order.find().sort({ createdAt: -1 })\<close>, which is Mongoose.
  Listing returns all orders of the collection ordered by \<open>createdAt\<close> descending, or
  fails with a store error (\<open>None\<close>). The order among equal dates, which the store leaves
  open, is that of insertion here.
\<close>

definition Order_find_sort :: "env \<Rightarrow> Order list \<Rightarrow> Order list option" where
  "Order_find_sort e docs = (if store_rejects e then None else Some (array_sort newest_first docs))"

section \<open>The notifier\<close>

text \<open>
  A template literal converts each value it embeds to a string, and the conversion can
  throw. An object converts through its \<^verbatim>\<open>toString\<close>, then its \<^verbatim>\<open>valueOf\<close>: an object
  parsed from JSON with an own property \<^verbatim>\<open>toString\<close> has no callable method left that
  returns a primitive (no JSON value is callable, and \<^verbatim>\<open>Object.prototype.valueOf\<close> returns
  the object), so the conversion throws a TypeError; any other object converts by
  \<^verbatim>\<open>Object.prototype.toString\<close>. An array converts by joining its elements, each converted
  in turn (\<^verbatim>\<open>null\<close> gives the empty string). Every other value converts. \<open>stringifies v\<close>
  says that the conversion of \<open>v\<close> does not throw.
\<close>

fun stringifies :: "jsval \<Rightarrow> bool"
  and stringifies_all :: "jsval list \<Rightarrow> bool" where
  "stringifies JUndefined = True"
| "stringifies JNull = True"
| "stringifies (JBool b) = True"
| "stringifies (JNum n) = True"
| "stringifies (JStr s) = True"
| "stringifies (JArr xs) = stringifies_all xs"
| "stringifies (JObj ps) = (map_of ps ''toString'' = None)"
| "stringifies_all [] = True"
| "stringifies_all (x # xs) = (stringifies x \<and> stringifies_all xs)"

text \<open>
  \<^verbatim>\<open>sendOrderEmail\<close>: one line per cart entry from its \<^verbatim>\<open>name\<close>, \<^verbatim>\<open>qty\<close> and
  \<^verbatim>\<open>price\<close>, then the subject and the text from \<^verbatim>\<open>_id\<close>, \<^verbatim>\<open>name\<close>, \<^verbatim>\<open>phone\<close>,
  \<^verbatim>\<open>address\<close> and \<^verbatim>\<open>createdAt\<close> (a date, which always converts), then
  \<^verbatim>\<open>transporter.sendMail\<close>. The function is \<^verbatim>\<open>async\<close>: whatever is thrown inside
  (reading a property of a \<^verbatim>\<open>null\<close> entry, \<^verbatim>\<open>.map\<close> on a value that is no array, a
  value that does not convert to a string, a rejected send) rejects the promise it
  returns (\<open>None\<close>). The mail is kept as its parts; of their rendering as text only the
  failure is modelled.
\<close>

fun item_line :: "jsval \<Rightarrow> (jsval \<times> jsval \<times> jsval) option" where
  "item_line i =
     (case get_prop i ''name'' of None \<Rightarrow> None
      | Some n \<Rightarrow> if \<not> stringifies n then None else
     (case get_prop i ''qty'' of None \<Rightarrow> None
      | Some q \<Rightarrow> if \<not> stringifies q then None else
     (case get_prop i ''price'' of None \<Rightarrow> None
      | Some p \<Rightarrow> if \<not> stringifies p then None else Some (n, q, p))))"

fun item_lines :: "jsval list \<Rightarrow> (jsval \<times> jsval \<times> jsval) list option" where
  "item_lines [] = Some []"
| "item_lines (i # is) =
     (case item_line i of None \<Rightarrow> None
      | Some l \<Rightarrow> (case item_lines is of None \<Rightarrow> None | Some ls \<Rightarrow> Some (l # ls)))"

definition sendOrderEmail :: "env \<Rightarrow> Order \<Rightarrow> mail option" where
  "sendOrderEmail e ord =
     (if truthy (cart ord) \<and> \<not> isArray (cart ord) then None
      else
        case item_lines (if truthy (cart ord) then elements (cart ord) else []) of
          None \<Rightarrow> None
        | Some ls \<Rightarrow>
            if \<not> stringifies (oid ord) then None
            else if \<not> stringifies (name ord) then None
            else if \<not> stringifies (phone ord) then None
            else if \<not> stringifies (address ord) then None
            else if sendMail_rejects e then None
            else Some \<lparr> mail_id = oid ord, mail_name = name ord, mail_phone = phone ord,
                        mail_address = address ord, mail_items = ls,
                        mail_placed_at = createdAt ord \<rparr>)"

text \<open>The call site: \<^verbatim>\<open>sendOrderEmail(savedOrder).catch(err => console.error(...))\<close>.\<close>

definition notify :: "env \<Rightarrow> Order \<Rightarrow> event list" where
  "notify e ord =
     (case sendOrderEmail e ord of
        None \<Rightarrow> [Console_error ''Error sending order email:'']
      | Some m \<Rightarrow> [Mail_sent m])"

section \<open>The routes\<close>

text \<open>\<^verbatim>\<open>const { name, phone, address, cart } = req.body\<close>; \<open>None\<close> is the TypeError of
  destructuring \<^verbatim>\<open>undefined\<close> or \<^verbatim>\<open>null\<close>.\<close>

definition destructure :: "jsval \<Rightarrow> (jsval \<times> jsval \<times> jsval \<times> jsval) option" where
  "destructure b =
     (case get_prop b ''name'' of None \<Rightarrow> None
      | Some n \<Rightarrow> (case get_prop b ''phone'' of None \<Rightarrow> None
      | Some p \<Rightarrow> (case get_prop b ''address'' of None \<Rightarrow> None
      | Some a \<Rightarrow> (case get_prop b ''cart'' of None \<Rightarrow> None
      | Some c \<Rightarrow> Some (n, p, a, c)))))"

text \<open>The test of line 116: \<^verbatim>\<open>!name || !phone || !address || !Array.isArray(cart) ||
  cart.length === 0\<close>.\<close>

definition invalid_order :: "jsval \<Rightarrow> jsval \<Rightarrow> jsval \<Rightarrow> jsval \<Rightarrow> bool" where
  "invalid_order n p a c =
     (\<not> truthy n \<or> \<not> truthy p \<or> \<not> truthy a \<or> \<not> isArray c \<or> length (elements c) = 0)"

text \<open>The \<^verbatim>\<open>catch\<close> block of an order route: the line of \<^verbatim>\<open>console.error\<close>, then
  status 500 with a message; the state is as it was.\<close>

definition server_error :: "string \<Rightarrow> string \<Rightarrow> state \<Rightarrow> response \<times> state \<times> event list" where
  "server_error logged msg s = (\<lparr> status = 500, body = Json_message msg \<rparr>, s, [Console_error logged])"

text \<open>\<^verbatim>\<open>app.post("/api/orders", ...)\<close>: the response, the state after it and what was
  done besides.\<close>

definition post_orders :: "env \<Rightarrow> jsval \<Rightarrow> state \<Rightarrow> response \<times> state \<times> event list" where
  "post_orders e b s =
     (case destructure b of
        None \<Rightarrow> server_error ''Error creating order:'' ''Server error while creating order'' s
      | Some (n, p, a, c) \<Rightarrow>
          if invalid_order n p a c
          then (\<lparr> status = 400, body = Json_message ''Invalid order data'' \<rparr>, s, [])
          else if readyState e = 1
          then
            (case Order_create e \<lparr> new_name = n, new_phone = p, new_address = a, new_cart = c,
                                   new_createdAt = None \<rparr> (collection s) of
               None \<Rightarrow> server_error ''Error creating order:'' ''Server error while creating order'' s
             | Some (savedOrder, docs) \<Rightarrow>
                 (\<lparr> status = 200, body = Json_order_received (oid savedOrder) \<rparr>,
                  s\<lparr> collection := docs \<rparr>, notify e savedOrder))
          else
            let savedOrder = \<lparr> oid = JNum (int (length (memoryOrders s)) + 1), name = n, phone = p,
                               address = a, cart = c, createdAt = now e \<rparr>
            in (\<lparr> status = 200, body = Json_order_received (oid savedOrder) \<rparr>,
                s\<lparr> memoryOrders := memoryOrders s @ [savedOrder] \<rparr>, notify e savedOrder))"

text \<open>\<^verbatim>\<open>app.get("/api/orders", ...)\<close>.\<close>

definition get_orders :: "env \<Rightarrow> state \<Rightarrow> response \<times> state \<times> event list" where
  "get_orders e s =
     (if readyState e = 1
      then
        (case Order_find_sort e (collection s) of
           None \<Rightarrow> server_error ''Error fetching orders:'' ''Server error while fetching orders'' s
         | Some allOrders \<Rightarrow> (\<lparr> status = 200, body = Json_orders allOrders \<rparr>, s, []))
      else (\<lparr> status = 200, body = Json_orders (array_sort newest_first (memoryOrders s)) \<rparr>, s, []))"

text \<open>\<^verbatim>\<open>app.get("/", ...)\<close> and \<^verbatim>\<open>app.get("/api/products", ...)\<close>. A product is its
  \<^verbatim>\<open>id\<close>, \<^verbatim>\<open>name\<close>, \<^verbatim>\<open>price\<close>, \<^verbatim>\<open>size\<close> and \<^verbatim>\<open>tag\<close>; the hyphen of the second tag
  is the non-breaking hyphen of the source, as its three bytes.\<close>

definition products :: "(int \<times> string \<times> int \<times> string \<times> string) list" where
  "products =
     [(1, ''Himalayan Dawn Green'', 650, ''80g'', ''Single estate''),
      (2, ''Moonlit Chamomile'', 580, ''50g'', ''Caffeine'' @ [CHR 0xE2, CHR 0x80, CHR 0x91] @ ''free''),
      (3, ''Smoked Oak Assam'', 720, ''100g'', ''Small batch'')]"

definition get_root :: "state \<Rightarrow> response \<times> state \<times> event list" where
  "get_root s = (\<lparr> status = 200, body = Text ''Anvi's Tea backend is running'' \<rparr>, s, [])"

definition get_products :: "state \<Rightarrow> response \<times> state \<times> event list" where
  "get_products s = (\<lparr> status = 200, body = Json_products products \<rparr>, s, [])"

text \<open>The four routes of the application, and a request served in the environment of its
  moment.\<close>

datatype request =
    Get_root
  | Get_products
  | Post_orders jsval
  | Get_orders

fun handle :: "env \<Rightarrow> request \<Rightarrow> state \<Rightarrow> response \<times> state \<times> event list" where
  "handle e Get_root s = get_root s"
| "handle e Get_products s = get_products s"
| "handle e (Post_orders b) s = post_orders e b s"
| "handle e Get_orders s = get_orders e s"

abbreviation response_of :: "response \<times> state \<times> event list \<Rightarrow> response" where
  "response_of r \<equiv> fst r"

abbreviation state_of :: "response \<times> state \<times> event list \<Rightarrow> state" where
  "state_of r \<equiv> fst (snd r)"

abbreviation events_of :: "response \<times> state \<times> event list \<Rightarrow> event list" where
  "events_of r \<equiv> snd (snd r)"

text \<open>Requests served one after the other: the state at the end, and the responses.\<close>

fun run :: "(env \<times> request) list \<Rightarrow> state \<Rightarrow> state" where
  "run [] s = s"
| "run ((e, r) # rs) s = run rs (state_of (handle e r s))"

fun responses :: "(env \<times> request) list \<Rightarrow> state \<Rightarrow> response list" where
  "responses [] s = []"
| "responses ((e, r) # rs) s = response_of (handle e r s) # responses rs (state_of (handle e r s))"

text \<open>The identifiers handed out by a sequence of responses, in order.\<close>

fun order_ids :: "response list \<Rightarrow> jsval list" where
  "order_ids [] = []"
| "order_ids (r # rs) =
     (case body r of Json_order_received i \<Rightarrow> i # order_ids rs | _ \<Rightarrow> order_ids rs)"

section \<open>Startup\<close>








text \<open>The state of a fresh process: \<^verbatim>\<open>const memoryOrders = []\<close>, and whatever documents
  the document store holds.\<close>

definition fresh :: "Order list \<Rightarrow> state" where
  "fresh docs = \<lparr> memoryOrders = [], collection = docs \<rparr>"

section \<open>Example requests\<close>

text \<open>The order of the concrete scenario of the specification, the same order without its
  address, and environments with the connection down and up.\<close>

definition scenario_cart :: jsval where
  "scenario_cart =
     JArr [JObj [(''id'', JStr ''1''), (''name'', JStr ''Himalayan Dawn Green''),
                 (''price'', JNum 650), (''qty'', JNum 2)]]"

definition scenario_body :: jsval where
  "scenario_body =
     JObj [(''name'', JStr ''A''), (''phone'', JStr ''123''), (''address'', JStr ''X''),
           (''cart'', scenario_cart)]"

definition no_address_body :: jsval where
  "no_address_body = JObj [(''name'', JStr ''A''), (''phone'', JStr ''123''), (''cart'', scenario_cart)]"

definition disconnected :: "int \<Rightarrow> env" where
  "disconnected t = \<lparr> readyState = 0, now = t, store_rejects = False, objectId = [], sendMail_rejects = False \<rparr>"

definition connected :: "int \<Rightarrow> string \<Rightarrow> env" where
  "connected t i = \<lparr> readyState = 1, now = t, store_rejects = False, objectId = i, sendMail_rejects = False \<rparr>"

text \<open>A stored order with a given identifier, name and creation time, and states holding
  three of them.\<close>

definition stored :: "int \<Rightarrow> string \<Rightarrow> int \<Rightarrow> Order" where
  "stored i n t = \<lparr> oid = JNum i, name = JStr n, phone = JStr ''123'', address = JStr ''X'',
                    cart = scenario_cart, createdAt = t \<rparr>"

definition three_in_memory :: state where
  "three_in_memory = \<lparr> memoryOrders = [stored 1 ''A'' 1000, stored 2 ''B'' 2000, stored 3 ''C'' 3000],
                        collection = [] \<rparr>"

definition three_in_collection :: state where
  "three_in_collection = \<lparr> memoryOrders = [],
       collection = [stored 1 ''A'' 1000, stored 2 ''B'' 2000, stored 3 ''C'' 3000] \<rparr>"

text \<open>A second order, and three create requests (the middle one without an address)
  served with the connection down.\<close>

definition second_body :: jsval where
  "second_body =
     JObj [(''name'', JStr ''B''), (''phone'', JStr ''456''), (''address'', JStr ''Y''),
           (''cart'', scenario_cart)]"

definition three_posts :: "(env \<times> request) list" where
  "three_posts =
     [(disconnected 1000, Post_orders scenario_body),
      (disconnected 2000, Post_orders no_address_body),
      (disconnected 3000, Post_orders second_body)]"

text \<open>An environment with the connection up and the document store failing; a create
  request served with the connection up followed by one served with it down; three
  environments of the process.\<close>

definition store_down :: "int \<Rightarrow> env" where
  "store_down t = \<lparr> readyState = 1, now = t, store_rejects = True, objectId = [], sendMail_rejects = False \<rparr>"

definition up_then_down :: "(env \<times> request) list" where
  "up_then_down =
     [(connected 1000 ''65f0c0ffee'', Post_orders scenario_body),
      (disconnected 2000, Post_orders second_body)]"







text \<open>Two create requests served within the same millisecond, and an order whose body
  carries a \<^verbatim>\<open>createdAt\<close> of its own.\<close>

definition same_instant :: "(env \<times> request) list" where
  "same_instant =
     [(disconnected 1000, Post_orders scenario_body),
      (disconnected 1000, Post_orders second_body)]"

definition backdated_body :: jsval where
  "backdated_body =
     JObj [(''name'', JStr ''A''), (''phone'', JStr ''123''), (''address'', JStr ''X''),
           (''cart'', scenario_cart), (''createdAt'', JNum 5)]"

text \<open>An order whose name is the object \<^verbatim>\<open>{"toString": 1}\<close>.\<close>

definition unprintable_body :: jsval where
  "unprintable_body =
     JObj [(''name'', JObj [(''toString'', JNum 1)]), (''phone'', JStr ''123''),
           (''address'', JStr ''X''), (''cart'', scenario_cart)]"

section \<open>Properties\<close>

subsection \<open>The branches of the handlers\<close>

lemma post_orders_throw:
  "destructure b = None \<Longrightarrow>
   post_orders e b s = server_error ''Error creating order:'' ''Server error while creating order'' s"
  by (simp add: post_orders_def)

lemma post_orders_invalid:
  "destructure b = Some (n, p, a, c) \<Longrightarrow> invalid_order n p a c \<Longrightarrow>
   post_orders e b s = (\<lparr> status = 400, body = Json_message ''Invalid order data'' \<rparr>, s, [])"
  by (simp add: post_orders_def)

lemma post_orders_memory:
  "destructure b = Some (n, p, a, c) \<Longrightarrow> \<not> invalid_order n p a c \<Longrightarrow> readyState e \<noteq> 1 \<Longrightarrow>
   post_orders e b s =
     (\<lparr> status = 200, body = Json_order_received (JNum (int (length (memoryOrders s)) + 1)) \<rparr>,
      s\<lparr> memoryOrders := memoryOrders s @
           [\<lparr> oid = JNum (int (length (memoryOrders s)) + 1), name = n, phone = p,
              address = a, cart = c, createdAt = now e \<rparr>] \<rparr>,
      notify e \<lparr> oid = JNum (int (length (memoryOrders s)) + 1), name = n, phone = p,
              address = a, cart = c, createdAt = now e \<rparr>)"
  by (simp add: post_orders_def Let_def)

lemma post_orders_durable_rejected:
  "destructure b = Some (n, p, a, c) \<Longrightarrow> \<not> invalid_order n p a c \<Longrightarrow> readyState e = 1 \<Longrightarrow>
   store_rejects e \<Longrightarrow>
   post_orders e b s = server_error ''Error creating order:'' ''Server error while creating order'' s"
  by (simp add: post_orders_def Order_create_def)

lemma post_orders_durable_saved:
  "destructure b = Some (n, p, a, c) \<Longrightarrow> \<not> invalid_order n p a c \<Longrightarrow> readyState e = 1 \<Longrightarrow>
   \<not> store_rejects e \<Longrightarrow>
   post_orders e b s =
     (\<lparr> status = 200, body = Json_order_received (JStr (objectId e)) \<rparr>,
      s\<lparr> collection := collection s @
           [\<lparr> oid = JStr (objectId e), name = n, phone = p,
              address = a, cart = c, createdAt = now e \<rparr>] \<rparr>,
      notify e \<lparr> oid = JStr (objectId e), name = n, phone = p,
              address = a, cart = c, createdAt = now e \<rparr>)"
  by (simp add: post_orders_def Order_create_def Let_def)

lemma destructure_None: "(destructure b = None) = (b = JUndefined \<or> b = JNull)"
  by (cases b) (simp_all add: destructure_def split: option.split)

lemma valid_order:
  "truthy n \<Longrightarrow> truthy p \<Longrightarrow> truthy a \<Longrightarrow> isArray c \<Longrightarrow> elements c \<noteq> [] \<Longrightarrow> \<not> invalid_order n p a c"
  by (simp add: invalid_order_def)

lemma get_orders_memory:
  "readyState e \<noteq> 1 \<Longrightarrow>
   get_orders e s = (\<lparr> status = 200, body = Json_orders (array_sort newest_first (memoryOrders s)) \<rparr>, s, [])"
  by (simp add: get_orders_def)

lemma get_orders_durable:
  "readyState e = 1 \<Longrightarrow> \<not> store_rejects e \<Longrightarrow>
   get_orders e s = (\<lparr> status = 200, body = Json_orders (array_sort newest_first (collection s)) \<rparr>, s, [])"
  by (simp add: get_orders_def Order_find_sort_def)

lemma get_orders_durable_rejected:
  "readyState e = 1 \<Longrightarrow> store_rejects e \<Longrightarrow>
   get_orders e s = server_error ''Error fetching orders:'' ''Server error while fetching orders'' s"
  by (simp add: get_orders_def Order_find_sort_def)

lemma get_orders_state: "state_of (get_orders e s) = s"
  by (simp add: get_orders_def server_error_def split: option.split)

text \<open>A rejected send always ends in the log line; so does a name that does not convert
  to a string, while the order itself is accepted.\<close>

lemma sendOrderEmail_rejected: "sendMail_rejects e \<Longrightarrow> sendOrderEmail e ord = None"
  by (simp add: sendOrderEmail_def split: option.split)

lemma unprintable_name_logged:
  "post_orders (disconnected 1000) unprintable_body (fresh []) =
     (\<lparr> status = 200, body = Json_order_received (JNum 1) \<rparr>,
      \<lparr> memoryOrders = [\<lparr> oid = JNum 1, name = JObj [(''toString'', JNum 1)], phone = JStr ''123'',
                           address = JStr ''X'', cart = scenario_cart, createdAt = 1000 \<rparr>],
        collection = [] \<rparr>,
      [Console_error ''Error sending order email:''])"
  by (simp add: post_orders_def destructure_def invalid_order_def unprintable_body_def
        scenario_cart_def disconnected_def fresh_def notify_def sendOrderEmail_def Let_def)

subsection \<open>The sort\<close>

lemma mset_place: "mset (place cmp a bs) = add_mset a (mset bs)"
  by (induction bs) simp_all

lemma mset_array_sort: "mset (array_sort cmp xs) = mset xs"
  by (induction xs) (simp_all add: mset_place)

lemma set_place: "set (place cmp a bs) = insert a (set bs)"
  by (induction bs) auto

lemma place_newest_first_sorted:
  "sorted_wrt (\<lambda>x y. createdAt y \<le> createdAt x) bs \<Longrightarrow>
   sorted_wrt (\<lambda>x y. createdAt y \<le> createdAt x) (place newest_first a bs)"
proof (induction bs)
  case Nil
  show ?case by simp
next
  case (Cons b bs)
  show ?case
  proof (cases "newest_first a b \<le> 0")
    case True
    then have "createdAt b \<le> createdAt a" by (simp add: newest_first_def)
    with Cons.prems True show ?thesis by fastforce
  next
    case False
    then have "createdAt a \<le> createdAt b" by (simp add: newest_first_def)
    with Cons False show ?thesis by (auto simp: set_place)
  qed
qed

lemma array_sort_newest_first_sorted:
  "sorted_wrt (\<lambda>x y. createdAt y \<le> createdAt x) (array_sort newest_first xs)"
  by (induction xs) (simp_all add: place_newest_first_sorted)

lemma array_sort_newest_last:
  "(\<And>x. x \<in> set xs \<Longrightarrow> createdAt x < createdAt new) \<Longrightarrow>
   array_sort newest_first (xs @ [new]) = new # array_sort newest_first xs"
proof (induction xs)
  case Nil
  show ?case by simp
next
  case (Cons a xs)
  have "createdAt a < createdAt new" using Cons.prems by simp
  then have "\<not> newest_first a new \<le> 0" by (simp add: newest_first_def)
  moreover have "array_sort newest_first (xs @ [new]) = new # array_sort newest_first xs"
    using Cons by simp
  ultimately show ?case by simp
qed

lemma array_sort_three:
  "createdAt o1 < createdAt o2 \<Longrightarrow> createdAt o2 < createdAt o3 \<Longrightarrow>
   array_sort newest_first [o1, o2, o3] = [o3, o2, o1]"
  by (simp add: newest_first_def)

subsection \<open>Sequences of requests\<close>

lemma order_ids_Cons: "order_ids (r # rs) = order_ids [r] @ order_ids rs"
  by (cases "body r") simp_all

lemma handle_disconnected:
  assumes "readyState e \<noteq> 1"
  shows "(order_ids [response_of (handle e r s)] = [] \<and> state_of (handle e r s) = s)
       \<or> (order_ids [response_of (handle e r s)] = [JNum (int (length (memoryOrders s)) + 1)]
          \<and> (\<exists>ord. oid ord = JNum (int (length (memoryOrders s)) + 1)
                \<and> state_of (handle e r s) = s\<lparr> memoryOrders := memoryOrders s @ [ord] \<rparr>))"
proof (cases r)
  case Get_root
  then show ?thesis by (simp add: get_root_def)
next
  case Get_products
  then show ?thesis by (simp add: get_products_def)
next
  case Get_orders
  with assms show ?thesis by (simp add: get_orders_memory)
next
  case (Post_orders b)
  show ?thesis
  proof (cases "destructure b")
    case None
    with Post_orders show ?thesis by (simp add: post_orders_throw server_error_def)
  next
    case (Some q)
    obtain n p a c where q: "q = (n, p, a, c)" by (cases q) auto
    show ?thesis
    proof (cases "invalid_order n p a c")
      case True
      with Some q Post_orders show ?thesis by (simp add: post_orders_invalid)
    next
      case False
      with Some q Post_orders assms show ?thesis
        by (auto simp: post_orders_memory
              intro!: exI [of _ "\<lparr> oid = JNum (int (length (memoryOrders s)) + 1), name = n,
                phone = p, address = a, cart = c, createdAt = now e \<rparr>"])
    qed
  qed
qed

lemma ids_from_memory_length:
  "\<forall>x \<in> set rs. readyState (fst x) \<noteq> 1 \<Longrightarrow>
   order_ids (responses rs s) =
     map (\<lambda>k. JNum (int k)) [Suc (length (memoryOrders s)) ..<
                              Suc (length (memoryOrders s)) + length (order_ids (responses rs s))]
   \<and> map oid (memoryOrders (run rs s)) = map oid (memoryOrders s) @ order_ids (responses rs s)"
proof (induction rs arbitrary: s)
  case Nil
  show ?case by simp
next
  case (Cons x rs)
  obtain e r where x: "x = (e, r)" by (cases x) auto
  from Cons.prems x have e: "readyState e \<noteq> 1" and rest: "\<forall>x \<in> set rs. readyState (fst x) \<noteq> 1"
    by simp_all
  let ?s' = "state_of (handle e r s)"
  note IH = Cons.IH [OF rest, of ?s']
  from handle_disconnected [OF e, of r s] show ?case
  proof
    assume same: "order_ids [response_of (handle e r s)] = [] \<and> ?s' = s"
    then have "order_ids (responses (x # rs) s) = order_ids (responses rs s)"
      using x order_ids_Cons [of "response_of (handle e r s)" "responses rs ?s'"] by simp
    moreover have "run (x # rs) s = run rs s" using x same by simp
    ultimately show ?thesis using IH same by simp
  next
    assume new: "order_ids [response_of (handle e r s)] = [JNum (int (length (memoryOrders s)) + 1)]
          \<and> (\<exists>ord. oid ord = JNum (int (length (memoryOrders s)) + 1)
                \<and> ?s' = s\<lparr> memoryOrders := memoryOrders s @ [ord] \<rparr>)"
    then obtain ord where ord: "oid ord = JNum (int (length (memoryOrders s)) + 1)"
      and s': "?s' = s\<lparr> memoryOrders := memoryOrders s @ [ord] \<rparr>" by blast
    have len: "length (memoryOrders ?s') = Suc (length (memoryOrders s))" using s' by simp
    have ids: "order_ids (responses (x # rs) s) =
                 JNum (int (length (memoryOrders s)) + 1) # order_ids (responses rs ?s')"
      using x new order_ids_Cons [of "response_of (handle e r s)" "responses rs ?s'"] by simp
    have run: "run (x # rs) s = run rs ?s'" using x by simp
    define m where "m = length (memoryOrders s)"
    define k where "k = length (order_ids (responses rs ?s'))"
    have tl: "order_ids (responses rs ?s') = map (\<lambda>k. JNum (int k)) [Suc (Suc m) ..< Suc (Suc m) + k]"
      using IH unfolding len k_def m_def by blast
    have "[Suc m ..< Suc m + Suc k] = Suc m # [Suc (Suc m) ..< Suc (Suc m) + k]"
      by (simp add: upt_conv_Cons)
    then have "map (\<lambda>k. JNum (int k)) [Suc m ..< Suc m + Suc k] =
          JNum (int m + 1) # map (\<lambda>k. JNum (int k)) [Suc (Suc m) ..< Suc (Suc m) + k]"
      by simp
    moreover have "length (order_ids (responses (x # rs) s)) = Suc k"
      unfolding ids k_def by simp
    ultimately have first: "order_ids (responses (x # rs) s) =
        map (\<lambda>k. JNum (int k)) [Suc m ..< Suc m + length (order_ids (responses (x # rs) s))]"
      using ids tl unfolding m_def by simp
    have "map oid (memoryOrders ?s') = map oid (memoryOrders s) @ [JNum (int m + 1)]"
      using s' ord unfolding m_def by simp
    moreover have "map oid (memoryOrders (run rs ?s')) =
        map oid (memoryOrders ?s') @ order_ids (responses rs ?s')"
      using IH by blast
    ultimately have "map oid (memoryOrders (run (x # rs) s)) =
        map oid (memoryOrders s) @ order_ids (responses (x # rs) s)"
      unfolding ids run m_def by simp
    with first show ?thesis unfolding m_def by blast
  qed
qed

lemma handle_appends:
  "(\<exists>zs. memoryOrders (state_of (handle e r s)) = memoryOrders s @ zs)
   \<and> (\<exists>zs. collection (state_of (handle e r s)) = collection s @ zs)"
proof (cases r)
  case Get_root
  then show ?thesis by (simp add: get_root_def)
next
  case Get_products
  then show ?thesis by (simp add: get_products_def)
next
  case Get_orders
  then show ?thesis by (simp add: get_orders_state)
next
  case (Post_orders b)
  then show ?thesis
    by (simp add: post_orders_def server_error_def Order_create_def Let_def
             split: option.split prod.split)
qed

lemma run_appends:
  "(\<exists>zs. memoryOrders (run rs s) = memoryOrders s @ zs)
   \<and> (\<exists>zs. collection (run rs s) = collection s @ zs)"
proof (induction rs arbitrary: s)
  case Nil
  show ?case by simp
next
  case (Cons x rs)
  obtain e r where x: "x = (e, r)" by (cases x) auto
  from handle_appends [of e r s] obtain ms cs where
    h: "memoryOrders (state_of (handle e r s)) = memoryOrders s @ ms"
       "collection (state_of (handle e r s)) = collection s @ cs" by blast
  from Cons.IH [of "state_of (handle e r s)"] obtain ms' cs' where
    t: "memoryOrders (run rs (state_of (handle e r s))) = memoryOrders (state_of (handle e r s)) @ ms'"
       "collection (run rs (state_of (handle e r s))) = collection (state_of (handle e r s)) @ cs'"
    by blast
  from h t x show ?case by simp
qed

section \<open>The claims\<close>




text \<open>
  C2, as stated, fails: two valid orders created within the same millisecond are both
  answered with 200, and the listing that follows shows the first of them in front, not the
  one created last (equal dates compare as 0 and the sort is stable). And a valid order
  whose write the document store rejects is answered with 500, not 200.
\<close>

theorem valid_order_listed_first_counterexample:
  "responses same_instant (fresh []) =
     [\<lparr> status = 200, body = Json_order_received (JNum 1) \<rparr>,
      \<lparr> status = 200, body = Json_order_received (JNum 2) \<rparr>]
   \<and> response_of (get_orders (disconnected 1001) (run same_instant (fresh []))) =
       \<lparr> status = 200, body = Json_orders
          [\<lparr> oid = JNum 1, name = JStr ''A'', phone = JStr ''123'', address = JStr ''X'',
             cart = scenario_cart, createdAt = 1000 \<rparr>,
           \<lparr> oid = JNum 2, name = JStr ''B'', phone = JStr ''456'', address = JStr ''Y'',
             cart = scenario_cart, createdAt = 1000 \<rparr>] \<rparr>
   \<and> response_of (post_orders (store_down 1000) scenario_body (fresh [])) =
       \<lparr> status = 500, body = Json_message ''Server error while creating order'' \<rparr>"
  by (simp add: same_instant_def disconnected_def store_down_def fresh_def post_orders_def
        get_orders_def destructure_def invalid_order_def scenario_body_def second_body_def
        scenario_cart_def newest_first_def Order_create_def server_error_def Let_def)

text \<open>
  C2, amended. A valid order whose store write does not fail (it cannot in memory) is
  answered with status 200, the message and an identifier that is neither \<^verbatim>\<open>null\<close> nor
  \<^verbatim>\<open>undefined\<close>. A following listing read from the same store (and not failing) contains
  the order with this identifier and the name, phone, address and cart of the request; it
  is the first entry whenever its creation time is later than the \<open>createdAt\<close> of every
  order the store held before.
\<close>

theorem valid_order_created_and_listed:
  assumes "destructure b = Some (n, p, a, c)"
    and "truthy n" and "truthy p" and "truthy a" and "isArray c" and "elements c \<noteq> []"
  shows "(readyState e \<noteq> 1 \<longrightarrow>
            response_of (post_orders e b s)
              = \<lparr> status = 200, body = Json_order_received (JNum (int (length (memoryOrders s)) + 1)) \<rparr>
            \<and> (readyState e' \<noteq> 1 \<longrightarrow>
                 (\<exists>l. response_of (get_orders e' (state_of (post_orders e b s)))
                        = \<lparr> status = 200, body = Json_orders l \<rparr>
                      \<and> \<lparr> oid = JNum (int (length (memoryOrders s)) + 1), name = n, phone = p,
                           address = a, cart = c, createdAt = now e \<rparr> \<in> set l
                      \<and> ((\<forall>x \<in> set (memoryOrders s). createdAt x < now e) \<longrightarrow>
                           l = \<lparr> oid = JNum (int (length (memoryOrders s)) + 1), name = n, phone = p,
                                  address = a, cart = c, createdAt = now e \<rparr>
                               # array_sort newest_first (memoryOrders s)))))
         \<and> (readyState e = 1 \<longrightarrow> \<not> store_rejects e \<longrightarrow>
            response_of (post_orders e b s)
              = \<lparr> status = 200, body = Json_order_received (JStr (objectId e)) \<rparr>
            \<and> (readyState e' = 1 \<longrightarrow> \<not> store_rejects e' \<longrightarrow>
                 (\<exists>l. response_of (get_orders e' (state_of (post_orders e b s)))
                        = \<lparr> status = 200, body = Json_orders l \<rparr>
                      \<and> \<lparr> oid = JStr (objectId e), name = n, phone = p,
                           address = a, cart = c, createdAt = now e \<rparr> \<in> set l
                      \<and> ((\<forall>x \<in> set (collection s). createdAt x < now e) \<longrightarrow>
                           l = \<lparr> oid = JStr (objectId e), name = n, phone = p,
                                  address = a, cart = c, createdAt = now e \<rparr>
                               # array_sort newest_first (collection s)))))
         \<and> (\<forall>i. body (response_of (post_orders e b s)) = Json_order_received i \<longrightarrow>
                i \<noteq> JNull \<and> i \<noteq> JUndefined)"
proof -
  have valid: "\<not> invalid_order n p a c" using assms by (simp add: valid_order)
  note d = assms(1)
  have in_sorted: "\<And>x xs. x \<in> set (array_sort newest_first (xs @ [x]))"
  proof -
    fix x :: Order and xs
    have "set (array_sort newest_first (xs @ [x])) = set_mset (mset (array_sort newest_first (xs @ [x])))"
      by simp
    also have "\<dots> = set (xs @ [x])" by (simp only: mset_array_sort set_mset_mset)
    finally show "x \<in> set (array_sort newest_first (xs @ [x]))" by simp
  qed
  show ?thesis
  proof (cases "readyState e = 1")
    case ready: True
    show ?thesis
    proof (cases "store_rejects e")
      case True
      with ready show ?thesis
        by (simp add: post_orders_durable_rejected [OF d valid] server_error_def)
    next
      case False
      with ready show ?thesis
        by (simp add: post_orders_durable_saved [OF d valid] get_orders_durable in_sorted
              array_sort_newest_last)
    qed
  next
    case False
    then show ?thesis
      by (simp add: post_orders_memory [OF d valid] get_orders_memory in_sorted
            array_sort_newest_last)
  qed
qed

text \<open>The order of the scenario, created at time 4000 after three older orders, is
  answered with 200 and heads the next listing, in memory and in the document store.\<close>

theorem valid_order_created_and_listed_witness:
  "destructure scenario_body = Some (JStr ''A'', JStr ''123'', JStr ''X'', scenario_cart)
   \<and> isArray scenario_cart \<and> elements scenario_cart \<noteq> []
   \<and> list_all (\<lambda>x. createdAt x < 4000) (memoryOrders three_in_memory)
   \<and> list_all (\<lambda>x. createdAt x < 4000) (collection three_in_collection)
   \<and> response_of (post_orders (disconnected 4000) scenario_body three_in_memory)
       = \<lparr> status = 200, body = Json_order_received (JNum 4) \<rparr>
   \<and> response_of (get_orders (disconnected 5000)
         (state_of (post_orders (disconnected 4000) scenario_body three_in_memory)))
       = \<lparr> status = 200, body = Json_orders
            [stored 4 ''A'' 4000, stored 3 ''C'' 3000, stored 2 ''B'' 2000, stored 1 ''A'' 1000] \<rparr>
   \<and> response_of (post_orders (connected 4000 ''65f0c0ffee'') scenario_body three_in_collection)
       = \<lparr> status = 200, body = Json_order_received (JStr ''65f0c0ffee'') \<rparr>
   \<and> response_of (get_orders (connected 5000 [])
         (state_of (post_orders (connected 4000 ''65f0c0ffee'') scenario_body three_in_collection)))
       = \<lparr> status = 200, body = Json_orders
            [(stored 4 ''A'' 4000)\<lparr> oid := JStr ''65f0c0ffee'' \<rparr>,
             stored 3 ''C'' 3000, stored 2 ''B'' 2000, stored 1 ''A'' 1000] \<rparr>"
proof -
  have d: "destructure scenario_body = Some (JStr ''A'', JStr ''123'', JStr ''X'', scenario_cart)"
    by (simp add: destructure_def scenario_body_def)
  have c: "isArray scenario_cart" "elements scenario_cart \<noteq> []"
    by (simp_all add: scenario_cart_def)
  have t: "truthy (JStr ''A'')" "truthy (JStr ''123'')" "truthy (JStr ''X'')"
    by simp_all
  have older: "\<forall>x \<in> set (memoryOrders three_in_memory). createdAt x < 4000"
      "\<forall>x \<in> set (collection three_in_collection). createdAt x < 4000"
    by (simp_all add: three_in_memory_def three_in_collection_def stored_def)
  have mem: "memoryOrders three_in_memory = [stored 1 ''A'' 1000, stored 2 ''B'' 2000, stored 3 ''C'' 3000]"
    and coll: "collection three_in_collection = [stored 1 ''A'' 1000, stored 2 ''B'' 2000, stored 3 ''C'' 3000]"
    by (simp_all add: three_in_memory_def three_in_collection_def)
  have sorted3: "array_sort newest_first [stored 1 ''A'' 1000, stored 2 ''B'' 2000, stored 3 ''C'' 3000]
      = [stored 3 ''C'' 3000, stored 2 ''B'' 2000, stored 1 ''A'' 1000]"
    by (simp add: newest_first_def stored_def)
  have e: "readyState (disconnected 4000) \<noteq> 1" "readyState (disconnected 5000) \<noteq> 1"
      "now (disconnected 4000) = 4000"
      "readyState (connected 4000 ''65f0c0ffee'') = 1" "\<not> store_rejects (connected 4000 ''65f0c0ffee'')"
      "readyState (connected 5000 []) = 1" "\<not> store_rejects (connected 5000 [])"
      "now (connected 4000 ''65f0c0ffee'') = 4000" "objectId (connected 4000 ''65f0c0ffee'') = ''65f0c0ffee''"
    by (simp_all add: disconnected_def connected_def)
  note m = valid_order_created_and_listed [OF d t c, of "disconnected 4000" three_in_memory "disconnected 5000"]
  note k = valid_order_created_and_listed [OF d t c, of "connected 4000 ''65f0c0ffee''" three_in_collection
             "connected 5000 []"]
  have new: "stored 4 ''A'' 4000 = \<lparr> oid = JNum 4, name = JStr ''A'', phone = JStr ''123'',
       address = JStr ''X'', cart = scenario_cart, createdAt = 4000 \<rparr>"
    by (simp add: stored_def)
  from m e older mem sorted3 new have
    "response_of (post_orders (disconnected 4000) scenario_body three_in_memory)
       = \<lparr> status = 200, body = Json_order_received (JNum 4) \<rparr>"
    "response_of (get_orders (disconnected 5000)
         (state_of (post_orders (disconnected 4000) scenario_body three_in_memory)))
       = \<lparr> status = 200, body = Json_orders
            [stored 4 ''A'' 4000, stored 3 ''C'' 3000, stored 2 ''B'' 2000, stored 1 ''A'' 1000] \<rparr>"
    by auto
  moreover from k e older coll sorted3 new have
    "response_of (post_orders (connected 4000 ''65f0c0ffee'') scenario_body three_in_collection)
       = \<lparr> status = 200, body = Json_order_received (JStr ''65f0c0ffee'') \<rparr>"
    "response_of (get_orders (connected 5000 [])
         (state_of (post_orders (connected 4000 ''65f0c0ffee'') scenario_body three_in_collection)))
       = \<lparr> status = 200, body = Json_orders
            [(stored 4 ''A'' 4000)\<lparr> oid := JStr ''65f0c0ffee'' \<rparr>,
             stored 3 ''C'' 3000, stored 2 ''B'' 2000, stored 1 ''A'' 1000] \<rparr>"
    by auto
  ultimately show ?thesis using d c older by (simp add: list_all_iff)
qed

text \<open>
  C3. A valid create request that finds the connection up and whose write the document
  store rejects is answered with status 500; the state is the one before the request
  (the model of the document store writes a document whole or not at all), no mail is
  sent, and every later listing is the one that would have been given before. More
  generally a create request answered with 500 has changed nothing.
\<close>

theorem store_failure_500_nothing_written:
  "(destructure b = Some (n, p, a, c) \<longrightarrow> truthy n \<longrightarrow> truthy p \<longrightarrow> truthy a \<longrightarrow> isArray c \<longrightarrow>
      elements c \<noteq> [] \<longrightarrow> readyState e = 1 \<longrightarrow> store_rejects e \<longrightarrow>
      post_orders e b s =
        (\<lparr> status = 500, body = Json_message ''Server error while creating order'' \<rparr>, s,
         [Console_error ''Error creating order:'']))
   \<and> (status (response_of (post_orders e b s)) = 500 \<longrightarrow>
        state_of (post_orders e b s) = s
        \<and> events_of (post_orders e b s) = [Console_error ''Error creating order:'']
        \<and> get_orders e' (state_of (post_orders e b s)) = get_orders e' s)"
proof -
  have "status (response_of (post_orders e b s)) = 500 \<longrightarrow>
        state_of (post_orders e b s) = s
        \<and> events_of (post_orders e b s) = [Console_error ''Error creating order:'']"
    by (simp add: post_orders_def server_error_def Order_create_def Let_def
          split: option.split prod.split)
  then show ?thesis
    by (auto simp: post_orders_durable_rejected valid_order server_error_def)
qed

text \<open>The order of the scenario against a failing document store that holds three
  orders: 500, nothing written, the listing as before.\<close>

theorem store_failure_500_nothing_written_witness:
  "destructure scenario_body = Some (JStr ''A'', JStr ''123'', JStr ''X'', scenario_cart)
   \<and> isArray scenario_cart \<and> elements scenario_cart \<noteq> []
   \<and> readyState (store_down 4000) = 1 \<and> store_rejects (store_down 4000)
   \<and> post_orders (store_down 4000) scenario_body three_in_collection =
        (\<lparr> status = 500, body = Json_message ''Server error while creating order'' \<rparr>,
         three_in_collection, [Console_error ''Error creating order:''])
   \<and> get_orders (connected 5000 []) (state_of (post_orders (store_down 4000) scenario_body three_in_collection))
       = get_orders (connected 5000 []) three_in_collection"
proof -
  have d: "destructure scenario_body = Some (JStr ''A'', JStr ''123'', JStr ''X'', scenario_cart)"
    by (simp add: destructure_def scenario_body_def)
  have c: "isArray scenario_cart \<and> elements scenario_cart \<noteq> []"
    by (simp add: scenario_cart_def)
  have e: "readyState (store_down 4000) = 1 \<and> store_rejects (store_down 4000)"
    by (simp add: store_down_def)
  show ?thesis
    using d c e
      store_failure_500_nothing_written [of scenario_body "JStr ''A''" "JStr ''123''" "JStr ''X''"
        scenario_cart "store_down 4000" three_in_collection "connected 5000 []"]
    by simp
qed

text \<open>
  C4. The listing is sorted by \<open>createdAt\<close> descending on every call that returns one: from
  the in-memory store always, from the document store whenever its query does not fail;
  it holds exactly the orders of the store it was read from. Three orders with creation
  times \<open>t1 < t2 < t3\<close> are listed as \<open>[t3, t2, t1]\<close>.
\<close>

theorem get_orders_newest_first:
  "(readyState e \<noteq> 1 \<longrightarrow>
      status (response_of (get_orders e s)) = 200 \<and>
      (\<exists>l. body (response_of (get_orders e s)) = Json_orders l \<and>
           sorted_wrt (\<lambda>x y. createdAt y \<le> createdAt x) l \<and> mset l = mset (memoryOrders s)))
   \<and> (readyState e = 1 \<longrightarrow> \<not> store_rejects e \<longrightarrow>
      status (response_of (get_orders e s)) = 200 \<and>
      (\<exists>l. body (response_of (get_orders e s)) = Json_orders l \<and>
           sorted_wrt (\<lambda>x y. createdAt y \<le> createdAt x) l \<and> mset l = mset (collection s)))
   \<and> (createdAt o1 < createdAt o2 \<longrightarrow> createdAt o2 < createdAt o3 \<longrightarrow>
        (readyState e \<noteq> 1 \<longrightarrow> memoryOrders s = [o1, o2, o3] \<longrightarrow>
           body (response_of (get_orders e s)) = Json_orders [o3, o2, o1])
      \<and> (readyState e = 1 \<longrightarrow> \<not> store_rejects e \<longrightarrow> collection s = [o1, o2, o3] \<longrightarrow>
           body (response_of (get_orders e s)) = Json_orders [o3, o2, o1]))"
proof -
  have mem: "readyState e \<noteq> 1 \<longrightarrow>
      status (response_of (get_orders e s)) = 200 \<and>
      (\<exists>l. body (response_of (get_orders e s)) = Json_orders l \<and>
           sorted_wrt (\<lambda>x y. createdAt y \<le> createdAt x) l \<and> mset l = mset (memoryOrders s))"
    by (simp add: get_orders_memory array_sort_newest_first_sorted mset_array_sort)
  have dur: "readyState e = 1 \<longrightarrow> \<not> store_rejects e \<longrightarrow>
      status (response_of (get_orders e s)) = 200 \<and>
      (\<exists>l. body (response_of (get_orders e s)) = Json_orders l \<and>
           sorted_wrt (\<lambda>x y. createdAt y \<le> createdAt x) l \<and> mset l = mset (collection s))"
    by (simp add: get_orders_durable array_sort_newest_first_sorted mset_array_sort)
  have three: "createdAt o1 < createdAt o2 \<longrightarrow> createdAt o2 < createdAt o3 \<longrightarrow>
        (readyState e \<noteq> 1 \<longrightarrow> memoryOrders s = [o1, o2, o3] \<longrightarrow>
           body (response_of (get_orders e s)) = Json_orders [o3, o2, o1])
      \<and> (readyState e = 1 \<longrightarrow> \<not> store_rejects e \<longrightarrow> collection s = [o1, o2, o3] \<longrightarrow>
           body (response_of (get_orders e s)) = Json_orders [o3, o2, o1])"
    using array_sort_three [of o1 o2 o3]
    by (simp add: get_orders_memory get_orders_durable)
  from mem dur three show ?thesis by blast
qed

text \<open>Three stored orders of the times 1000, 2000 and 3000, listed from each store.\<close>

theorem get_orders_newest_first_witness:
  "body (response_of (get_orders (disconnected 4000) three_in_memory))
     = Json_orders [stored 3 ''C'' 3000, stored 2 ''B'' 2000, stored 1 ''A'' 1000]
   \<and> body (response_of (get_orders (connected 4000 ''x'') three_in_collection))
     = Json_orders [stored 3 ''C'' 3000, stored 2 ''B'' 2000, stored 1 ''A'' 1000]"
  using get_orders_newest_first [of "disconnected 4000" three_in_memory
          "stored 1 ''A'' 1000" "stored 2 ''B'' 2000" "stored 3 ''C'' 3000"]
        get_orders_newest_first [of "connected 4000 ''x''" three_in_collection
          "stored 1 ''A'' 1000" "stored 2 ''B'' 2000" "stored 3 ''C'' 3000"]
  by (simp add: disconnected_def connected_def three_in_memory_def three_in_collection_def stored_def)

text \<open>
  C5. With the connection down at every request of a fresh process (the in-memory store),
  the identifiers handed out by the successful create requests are 1, 2, 3, ... in the
  order of creation, and they are the identifiers of the stored orders in the order of the
  array.
\<close>

theorem memory_ids_sequential:
  assumes "\<forall>x \<in> set rs. readyState (fst x) \<noteq> 1"
  shows "order_ids (responses rs (fresh docs)) =
           map (\<lambda>k. JNum (int k)) [1 ..< Suc (length (order_ids (responses rs (fresh docs))))]
         \<and> map oid (memoryOrders (run rs (fresh docs))) = order_ids (responses rs (fresh docs))"
  using ids_from_memory_length [OF assms, of "fresh docs"] by (simp add: fresh_def)

text \<open>Two orders accepted around a rejected one get the identifiers 1 and 2.\<close>

theorem memory_ids_sequential_witness:
  "list_all (\<lambda>x. readyState (fst x) \<noteq> 1) three_posts
   \<and> order_ids (responses three_posts (fresh [])) = [JNum 1, JNum 2]
   \<and> map oid (memoryOrders (run three_posts (fresh []))) = [JNum 1, JNum 2]"
proof -
  have h: "\<forall>x \<in> set three_posts. readyState (fst x) \<noteq> 1"
    by (simp add: three_posts_def disconnected_def)
  have l: "length (order_ids (responses three_posts (fresh []))) = 2"
    by (simp add: three_posts_def disconnected_def fresh_def post_orders_def destructure_def
          invalid_order_def scenario_body_def no_address_body_def second_body_def
          scenario_cart_def Let_def)
  have u: "[1 ..< Suc 2] = [1, 2]" by (simp add: upt_conv_Cons)
  show ?thesis
    using h l u memory_ids_sequential [OF h, of "[]"] by (simp add: list_all_iff)
qed

text \<open>
  C6. The response and the state of a create request are the same whether
  \<^verbatim>\<open>transporter.sendMail\<close> rejects or not; when the order was accepted and the send
  rejects, the only trace of the failure is the line of \<^verbatim>\<open>console.error\<close>.
\<close>

theorem mail_failure_not_propagated:
  "response_of (post_orders (e\<lparr> sendMail_rejects := True \<rparr>) b s)
     = response_of (post_orders (e\<lparr> sendMail_rejects := False \<rparr>) b s)
   \<and> state_of (post_orders (e\<lparr> sendMail_rejects := True \<rparr>) b s)
     = state_of (post_orders (e\<lparr> sendMail_rejects := False \<rparr>) b s)
   \<and> (status (response_of (post_orders (e\<lparr> sendMail_rejects := True \<rparr>) b s)) = 200 \<longrightarrow>
        events_of (post_orders (e\<lparr> sendMail_rejects := True \<rparr>) b s)
          = [Console_error ''Error sending order email:''])"
  by (simp add: post_orders_def server_error_def Order_create_def Let_def notify_def
        sendOrderEmail_def split: option.split prod.split)

text \<open>The order of the scenario is accepted with identifier 1 although the send fails.\<close>

theorem mail_failure_not_propagated_witness:
  "response_of (post_orders ((disconnected 1000)\<lparr> sendMail_rejects := True \<rparr>) scenario_body (fresh []))
     = \<lparr> status = 200, body = Json_order_received (JNum 1) \<rparr>
   \<and> response_of (post_orders ((disconnected 1000)\<lparr> sendMail_rejects := False \<rparr>) scenario_body (fresh []))
     = \<lparr> status = 200, body = Json_order_received (JNum 1) \<rparr>
   \<and> events_of (post_orders ((disconnected 1000)\<lparr> sendMail_rejects := True \<rparr>) scenario_body (fresh []))
     = [Console_error ''Error sending order email:'']"
proof -
  have "response_of (post_orders ((disconnected 1000)\<lparr> sendMail_rejects := False \<rparr>) scenario_body (fresh []))
     = \<lparr> status = 200, body = Json_order_received (JNum 1) \<rparr>"
    by (simp add: post_orders_def destructure_def invalid_order_def scenario_body_def
          scenario_cart_def disconnected_def fresh_def Let_def)
  then show ?thesis
    using mail_failure_not_propagated [of "disconnected 1000" scenario_body "fresh []"] by simp
qed

text \<open>
  C7, as stated, fails in its last part: with the connection reading 1 and the call into
  the document store rejected, a valid create request and a listing are both answered
  with 500, although \<^verbatim>\<open>memoryOrders\<close> is there (it holds three orders) and stays as it
  was. The handlers never fall back to it.
\<close>

theorem store_chosen_per_request_counterexample:
  "response_of (post_orders (store_down 2000) second_body three_in_memory)
     = \<lparr> status = 500, body = Json_message ''Server error while creating order'' \<rparr>
   \<and> state_of (post_orders (store_down 2000) second_body three_in_memory) = three_in_memory
   \<and> response_of (get_orders (store_down 2000) three_in_memory)
     = \<lparr> status = 500, body = Json_message ''Server error while fetching orders'' \<rparr>"
  by (simp add: store_down_def post_orders_def get_orders_def destructure_def invalid_order_def
        second_body_def scenario_cart_def Order_create_def Order_find_sort_def server_error_def)

text \<open>
  C7, amended. Each request reads the connection state of its own moment. A valid create
  request writes to the document store when the state reads 1 (connected) and leaves
  \<^verbatim>\<open>memoryOrders\<close> alone; otherwise it appends to \<^verbatim>\<open>memoryOrders\<close>, leaves the document
  store alone and answers 200. A listing is read from the document store when the state
  reads 1 and from \<^verbatim>\<open>memoryOrders\<close> otherwise, where it always answers 200. With the
  connection up the answer is 200 unless the call into the document store fails; then it is
  500 and neither store is written.
\<close>

theorem store_chosen_per_request:
  assumes "destructure b = Some (n, p, a, c)"
    and "truthy n" and "truthy p" and "truthy a" and "isArray c" and "elements c \<noteq> []"
  shows "(readyState e = 1 \<longrightarrow>
            memoryOrders (state_of (post_orders e b s)) = memoryOrders s
            \<and> (store_rejects e \<longrightarrow>
                 status (response_of (post_orders e b s)) = 500
                 \<and> collection (state_of (post_orders e b s)) = collection s)
            \<and> (\<not> store_rejects e \<longrightarrow>
                 status (response_of (post_orders e b s)) = 200
                 \<and> collection (state_of (post_orders e b s)) = collection s @
                     [\<lparr> oid = JStr (objectId e), name = n, phone = p, address = a, cart = c,
                        createdAt = now e \<rparr>]))
         \<and> (readyState e \<noteq> 1 \<longrightarrow>
              status (response_of (post_orders e b s)) = 200
              \<and> collection (state_of (post_orders e b s)) = collection s
              \<and> memoryOrders (state_of (post_orders e b s)) = memoryOrders s @
                  [\<lparr> oid = JNum (int (length (memoryOrders s)) + 1), name = n, phone = p,
                     address = a, cart = c, createdAt = now e \<rparr>])
         \<and> ((memoryOrders (state_of (post_orders e b s)) \<noteq> memoryOrders s) = (readyState e \<noteq> 1))
         \<and> (readyState e = 1 \<longrightarrow> \<not> store_rejects e \<longrightarrow>
              response_of (get_orders e s)
                = \<lparr> status = 200, body = Json_orders (array_sort newest_first (collection s)) \<rparr>)
         \<and> (readyState e = 1 \<longrightarrow> store_rejects e \<longrightarrow> status (response_of (get_orders e s)) = 500)
         \<and> (readyState e \<noteq> 1 \<longrightarrow>
              response_of (get_orders e s)
                = \<lparr> status = 200, body = Json_orders (array_sort newest_first (memoryOrders s)) \<rparr>)"
proof -
  have valid: "\<not> invalid_order n p a c" using assms by (simp add: valid_order)
  note d = assms(1)
  show ?thesis
  proof (cases "readyState e = 1")
    case ready: True
    show ?thesis
    proof (cases "store_rejects e")
      case True
      with ready show ?thesis
        by (simp add: post_orders_durable_rejected [OF d valid] get_orders_durable_rejected
              server_error_def)
    next
      case False
      with ready show ?thesis
        by (simp add: post_orders_durable_saved [OF d valid] get_orders_durable)
    qed
  next
    case False
    then show ?thesis
      by (simp add: post_orders_memory [OF d valid] get_orders_memory)
  qed
qed

text \<open>Two orders in a row, the first with the connection up and the second with it
  down: the first is in the document store, the second in \<^verbatim>\<open>memoryOrders\<close>.\<close>

theorem store_chosen_per_request_witness:
  "destructure scenario_body = Some (JStr ''A'', JStr ''123'', JStr ''X'', scenario_cart)
   \<and> destructure second_body = Some (JStr ''B'', JStr ''456'', JStr ''Y'', scenario_cart)
   \<and> isArray scenario_cart \<and> elements scenario_cart \<noteq> []
   \<and> collection (run up_then_down (fresh [])) =
       [\<lparr> oid = JStr ''65f0c0ffee'', name = JStr ''A'', phone = JStr ''123'', address = JStr ''X'',
          cart = scenario_cart, createdAt = 1000 \<rparr>]
   \<and> memoryOrders (run up_then_down (fresh [])) =
       [\<lparr> oid = JNum 1, name = JStr ''B'', phone = JStr ''456'', address = JStr ''Y'',
          cart = scenario_cart, createdAt = 2000 \<rparr>]"
proof -
  have d1: "destructure scenario_body = Some (JStr ''A'', JStr ''123'', JStr ''X'', scenario_cart)"
    by (simp add: destructure_def scenario_body_def)
  have d2: "destructure second_body = Some (JStr ''B'', JStr ''456'', JStr ''Y'', scenario_cart)"
    by (simp add: destructure_def second_body_def)
  have c: "isArray scenario_cart" "elements scenario_cart \<noteq> []"
    by (simp_all add: scenario_cart_def)
  have t: "truthy (JStr ''A'')" "truthy (JStr ''123'')" "truthy (JStr ''X'')"
          "truthy (JStr ''B'')" "truthy (JStr ''456'')" "truthy (JStr ''Y'')"
    by simp_all
  let ?s1 = "state_of (post_orders (connected 1000 ''65f0c0ffee'') scenario_body (fresh []))"
  have r: "run up_then_down (fresh []) = state_of (post_orders (disconnected 2000) second_body ?s1)"
    by (simp add: up_then_down_def)
  note first = store_chosen_per_request [OF d1 t(1) t(2) t(3) c, of "connected 1000 ''65f0c0ffee''" "fresh []"]
  note second = store_chosen_per_request [OF d2 t(4) t(5) t(6) c, of "disconnected 2000" ?s1]
  from first have s1: "memoryOrders ?s1 = []" "collection ?s1 =
       [\<lparr> oid = JStr ''65f0c0ffee'', name = JStr ''A'', phone = JStr ''123'', address = JStr ''X'',
          cart = scenario_cart, createdAt = 1000 \<rparr>]"
    by (simp_all add: connected_def fresh_def)
  from second s1 have "collection (state_of (post_orders (disconnected 2000) second_body ?s1)) =
       [\<lparr> oid = JStr ''65f0c0ffee'', name = JStr ''A'', phone = JStr ''123'', address = JStr ''X'',
          cart = scenario_cart, createdAt = 1000 \<rparr>]"
    "memoryOrders (state_of (post_orders (disconnected 2000) second_body ?s1)) =
       [\<lparr> oid = JNum 1, name = JStr ''B'', phone = JStr ''456'', address = JStr ''Y'',
          cart = scenario_cart, createdAt = 2000 \<rparr>]"
    by (simp_all add: disconnected_def)
  with r d1 d2 c show ?thesis by simp
qed

text \<open>
  C8, as stated, fails in its second half: a \<^verbatim>\<open>createdAt\<close> supplied in the request body is
  not used. The handler takes only \<^verbatim>\<open>name\<close>, \<^verbatim>\<open>phone\<close>, \<^verbatim>\<open>address\<close> and \<^verbatim>\<open>cart\<close> out of
  the body, so the order created at time 1000 from a body with \<^verbatim>\<open>createdAt: 5\<close> is stored
  with the date 1000, in either store.
\<close>

theorem supplied_createdAt_used_counterexample:
  "get_prop backdated_body ''createdAt'' = Some (JNum 5)
   \<and> status (response_of (post_orders (disconnected 1000) backdated_body (fresh []))) = 200
   \<and> map createdAt (memoryOrders (state_of (post_orders (disconnected 1000) backdated_body (fresh [])))) = [1000]
   \<and> status (response_of (post_orders (connected 1000 ''65f0c0ffee'') backdated_body (fresh []))) = 200
   \<and> map createdAt (collection (state_of (post_orders (connected 1000 ''65f0c0ffee'') backdated_body (fresh []))))
       = [1000]"
  by (simp add: backdated_body_def disconnected_def connected_def fresh_def post_orders_def
        destructure_def invalid_order_def scenario_cart_def Order_create_def Let_def)

text \<open>
  C8, amended. Every order created through the route is stored with the time of its
  creation as \<open>createdAt\<close>, whatever the request body holds: the in-memory order gets
  \<^verbatim>\<open>new Date()\<close>, and the document passed to \<^verbatim>\<open>Order.create\<close> has no \<^verbatim>\<open>createdAt\<close>, so the
  default of the schema applies.
\<close>

theorem createdAt_is_time_of_creation:
  assumes "destructure b = Some (n, p, a, c)"
    and "truthy n" and "truthy p" and "truthy a" and "isArray c" and "elements c \<noteq> []"
  shows "(readyState e \<noteq> 1 \<longrightarrow>
            map createdAt (memoryOrders (state_of (post_orders e b s)))
              = map createdAt (memoryOrders s) @ [now e])
         \<and> (readyState e = 1 \<longrightarrow> \<not> store_rejects e \<longrightarrow>
            map createdAt (collection (state_of (post_orders e b s)))
              = map createdAt (collection s) @ [now e])"
proof -
  have valid: "\<not> invalid_order n p a c" using assms by (simp add: valid_order)
  show ?thesis
    by (simp add: post_orders_memory [OF assms(1) valid]
          post_orders_durable_saved [OF assms(1) valid])
qed

text \<open>The order that carries \<^verbatim>\<open>createdAt: 5\<close> is stored after three others with the
  time 4000 of its creation.\<close>

theorem createdAt_is_time_of_creation_witness:
  "destructure backdated_body = Some (JStr ''A'', JStr ''123'', JStr ''X'', scenario_cart)
   \<and> isArray scenario_cart \<and> elements scenario_cart \<noteq> []
   \<and> map createdAt (memoryOrders (state_of (post_orders (disconnected 4000) backdated_body three_in_memory)))
       = [1000, 2000, 3000, 4000]
   \<and> map createdAt (collection (state_of (post_orders (connected 4000 []) backdated_body three_in_collection)))
       = [1000, 2000, 3000, 4000]"
proof -
  have d: "destructure backdated_body = Some (JStr ''A'', JStr ''123'', JStr ''X'', scenario_cart)"
    by (simp add: destructure_def backdated_body_def)
  have c: "isArray scenario_cart" "elements scenario_cart \<noteq> []"
    by (simp_all add: scenario_cart_def)
  have t: "truthy (JStr ''A'')" "truthy (JStr ''123'')" "truthy (JStr ''X'')"
    by simp_all
  show ?thesis
    using d c
      createdAt_is_time_of_creation [OF d t c, of "disconnected 4000" three_in_memory]
      createdAt_is_time_of_creation [OF d t c, of "connected 4000 []" three_in_collection]
    by (simp add: disconnected_def connected_def three_in_memory_def three_in_collection_def stored_def)
qed




text \<open>
  C10. No request changes or removes a stored order: after any sequence of requests each
  store begins with the orders it held before, in the same order. Listing leaves the state
  as it was (the sort works on a copy), and a create request leaves \<^verbatim>\<open>memoryOrders\<close> as it
  was or appends one order to it.
\<close>

theorem stored_orders_immutable:
  "take (length (memoryOrders s)) (memoryOrders (run rs s)) = memoryOrders s
   \<and> take (length (collection s)) (collection (run rs s)) = collection s
   \<and> state_of (get_orders e s) = s
   \<and> (memoryOrders (state_of (post_orders e b s)) = memoryOrders s
      \<or> (\<exists>ord. memoryOrders (state_of (post_orders e b s)) = memoryOrders s @ [ord]))"
proof -
  from run_appends [of rs s] have
    "take (length (memoryOrders s)) (memoryOrders (run rs s)) = memoryOrders s"
    "take (length (collection s)) (collection (run rs s)) = collection s"
    by auto
  moreover have "memoryOrders (state_of (post_orders e b s)) = memoryOrders s
      \<or> (\<exists>ord. memoryOrders (state_of (post_orders e b s)) = memoryOrders s @ [ord])"
    by (simp add: post_orders_def server_error_def Order_create_def Let_def
             split: option.split prod.split)
  ultimately show ?thesis by (simp add: get_orders_state)
qed

text \<open>Three stored orders are still there, in their order, after three more create
  requests, and a listing leaves the state as it was.\<close>

theorem stored_orders_immutable_witness:
  "take (length (memoryOrders three_in_memory)) (memoryOrders (run three_posts three_in_memory))
     = [stored 1 ''A'' 1000, stored 2 ''B'' 2000, stored 3 ''C'' 3000]
   \<and> state_of (get_orders (disconnected 4000) three_in_memory) = three_in_memory"
proof -
  have "memoryOrders three_in_memory = [stored 1 ''A'' 1000, stored 2 ''B'' 2000, stored 3 ''C'' 3000]"
    by (simp add: three_in_memory_def)
  then show ?thesis
    using stored_orders_immutable [of three_in_memory three_posts "disconnected 4000" scenario_body]
    by simp
qed

end
